theory Spec2Isabelle
  imports Main "HOL-Library.Word" "HOL-Library.List_Lexorder" "HOL-Library.AList"
begin

section \<open>The Sidebar component of src/components/Sidebar.tsx\<close>

text \<open>
  The component derives four read models from its \<open>items\<close> prop (\<open>tagCounts\<close>,
  \<open>sortedTags\<close>, \<open>categoryCounts\<close>, \<open>allCategories\<close>), keeps six pieces of local
  state, and answers user gestures by updating that state and by calling the callbacks it
  was given. The embedding follows the TypeScript line by line: a \<open>reduce\<close> is a
  \<open>foldl\<close>, a \<open>forEach\<close> with a mutated accumulator is a \<open>foldl\<close>, a handler is a
  function from the state of the current render to the next state and the list of effects
  it performed, in order.
\<close>

subsection \<open>Strings\<close>

text \<open>
  A JavaScript string is a sequence of UTF-16 code units. Comparison by \<open><\<close> (and by
  \<open>Array.prototype.sort\<close> without a comparator) is lexicographic on the code units, which
  is the order HOL-Library.List_Lexorder gives to lists of words.
\<close>

type_synonym jsstring = "16 word list"

definition js :: "string \<Rightarrow> jsstring" where
  "js s = map of_char s"

text \<open>The literal of lines 45 and 52: U+672A, U+5206, U+7C7B.\<close>

definition UNCATEGORIZED :: jsstring where
  "UNCATEGORIZED = [0x672A, 0x5206, 0x7C7B]"

text \<open>
  \<open>String.prototype.trim\<close> removes the code units of WhiteSpace and LineTerminator
  (ECMA-262) from both ends. All of them are in the Basic Multilingual Plane, so the test
  is on single code units.
\<close>

definition is_white_space :: "16 word \<Rightarrow> bool" where
  "is_white_space c =
     (c \<in> set [0x0009, 0x000A, 0x000B, 0x000C, 0x000D, 0x0020, 0x00A0, 0x1680,
               0x2028, 0x2029, 0x202F, 0x205F, 0x3000, 0xFEFF]
      \<or> (0x2000 \<le> c \<and> c \<le> 0x200A))"

definition trim :: "jsstring \<Rightarrow> jsstring" where
  "trim s = rev (dropWhile is_white_space (rev (dropWhile is_white_space s)))"

subsection \<open>Objects used as dictionaries\<close>

text \<open>
  Both count maps are created by the literal \<open>{}\<close> (lines 40 and 48), an ordinary object
  whose prototype is \<open>Object.prototype\<close>, and are read and written with \<open>acc[key]\<close>.
  An object is modelled by its own properties in creation order. A read that finds no own
  property continues on the prototype, which carries the twelve properties below: eleven
  functions and the accessor \<open>__proto__\<close>.
\<close>

definition Object_prototype_names :: "jsstring list" where
  "Object_prototype_names =
     [js ''constructor'', js ''__defineGetter__'', js ''__defineSetter__'',
      js ''hasOwnProperty'', js ''__lookupGetter__'', js ''__lookupSetter__'',
      js ''isPrototypeOf'', js ''propertyIsEnumerable'', js ''toString'', js ''valueOf'',
      js ''toLocaleString'', js ''__proto__'']"

text \<open>
  The values the two reducers store. \<open>Num n\<close> is the number \<open>n\<close>. \<open>Txt p k\<close> is the
  string that \<open>+\<close> builds from the inherited value of \<open>Object.prototype[p]\<close> (the source
  text of a native function, or \<open>[object Object]\<close> for \<open>__proto__\<close>) followed by \<open>k\<close>
  characters \<open>1\<close>; the exact text of a native function is left to the engine, so it is kept
  symbolic. Numbers are IEEE doubles in the source; they are exact below \<open>2^53\<close>, a count
  no item list in memory reaches, so \<open>nat\<close> stands for them.
\<close>

datatype jsval = Num nat | Txt jsstring nat

type_synonym jsobject = "(jsstring \<times> jsval) list"

datatype jsread = Undefined | Own jsval | Inherited jsstring

text \<open>\<open>acc[k]\<close> as an expression: own property first, then the prototype.\<close>

definition get_prop :: "jsobject \<Rightarrow> jsstring \<Rightarrow> jsread" where
  "get_prop acc k =
     (case map_of acc k of
        Some v \<Rightarrow> Own v
      | None \<Rightarrow> if k \<in> set Object_prototype_names then Inherited k else Undefined)"

text \<open>
  \<open>(acc[k] || 0) + 1\<close>. \<open>undefined\<close> and the number \<open>0\<close> are falsy, so \<open>0\<close> replaces
  them; every other number counts up. A function, an object and a non-empty string are
  truthy, and \<open>+\<close> with one of them is string concatenation.
\<close>

fun or_zero_plus_one :: "jsread \<Rightarrow> jsval" where
  "or_zero_plus_one Undefined = Num 1"
| "or_zero_plus_one (Own (Num n)) = Num (n + 1)"
| "or_zero_plus_one (Own (Txt p k)) = Txt p (k + 1)"
| "or_zero_plus_one (Inherited p) = Txt p 1"

text \<open>
  \<open>acc[k] = v\<close> as a statement. The eleven function properties of the prototype are
  writable data properties, so the assignment creates (or overwrites) an own property,
  created last in the order. \<open>__proto__\<close> is an accessor of the prototype: the assignment
  calls its setter, which ignores a value that is neither an object nor \<open>null\<close>, and no
  own property appears. (An object born as \<open>{}\<close> and only written by assignment never has
  an own property of that name.)
\<close>

definition set_prop :: "jsobject \<Rightarrow> jsstring \<Rightarrow> jsval \<Rightarrow> jsobject" where
  "set_prop acc k v = (if k = js ''__proto__'' then acc else AList.update k v acc)"

text \<open>The statement \<open>acc[k] = (acc[k] || 0) + 1\<close> of lines 37 and 46.\<close>

definition bump :: "jsobject \<Rightarrow> jsstring \<Rightarrow> jsobject" where
  "bump acc k = set_prop acc k (or_zero_plus_one (get_prop acc k))"

text \<open>
  \<open>Object.keys\<close>: the own enumerable string keys, array indices first in ascending
  numeric order, then the others in creation order. An array index is the canonical
  decimal form of an integer below \<open>2^32 - 1\<close>.
\<close>

definition is_digit :: "16 word \<Rightarrow> bool" where
  "is_digit c = (0x30 \<le> c \<and> c \<le> 0x39)"

definition index_value :: "jsstring \<Rightarrow> nat" where
  "index_value s = foldl (\<lambda>n c. 10 * n + (unat c - 48)) 0 s"

definition is_array_index :: "jsstring \<Rightarrow> bool" where
  "is_array_index s =
     (s \<noteq> [] \<and> list_all is_digit s \<and> (length s = 1 \<or> hd s \<noteq> 0x30)
      \<and> index_value s < 2 ^ 32 - 1)"

definition Object_keys :: "jsobject \<Rightarrow> jsstring list" where
  "Object_keys obj =
     (let ks = map fst obj
      in sort_key index_value (filter is_array_index ks)
         @ filter (\<lambda>k. \<not> is_array_index k) ks)"

text \<open>
  \<open>Array.from(new Set(xs))\<close>: the elements of \<open>xs\<close> in order of first occurrence.
\<close>

definition Set_add :: "'a list \<Rightarrow> 'a \<Rightarrow> 'a list" where
  "Set_add s x = (if x \<in> set s then s else s @ [x])"

definition Array_from_Set :: "'a list \<Rightarrow> 'a list" where
  "Array_from_Set xs = foldl Set_add [] xs"

subsection \<open>Items and the derived read models (lines 35 to 53)\<close>

text \<open>
  Modelled from the spec: the type \<open>VaultItem\<close> is imported from \<open>../types\<close>,
  which is not among the sources. The spec gives an item a collection of tag strings and a
  category that is a string or empty; the component reads no other field. The tags are a
  list, since line 36 walks them with \<open>forEach\<close> once per element, and the category is
  optional, \<open>None\<close> standing for an absent (\<open>undefined\<close> or \<open>null\<close>) field.
\<close>

record VaultItem =
  tags :: "jsstring list"
  category :: "jsstring option"

text \<open>Lines 35 to 40.\<close>

definition tagCounts :: "VaultItem list \<Rightarrow> jsobject" where
  "tagCounts items = foldl (\<lambda>acc item. foldl bump acc (tags item)) [] items"

text \<open>Line 42.\<close>

definition sortedTags :: "VaultItem list \<Rightarrow> jsstring list" where
  "sortedTags items = sort (Object_keys (tagCounts items))"

text \<open>Line 45, \<open>item.category || UNCATEGORIZED\<close>: an absent or empty category is falsy.\<close>

definition category_or_default :: "VaultItem \<Rightarrow> jsstring" where
  "category_or_default item =
     (case category item of
        None \<Rightarrow> UNCATEGORIZED
      | Some c \<Rightarrow> if c = [] then UNCATEGORIZED else c)"

text \<open>Lines 44 to 48.\<close>

definition categoryCounts :: "VaultItem list \<Rightarrow> jsobject" where
  "categoryCounts items = foldl (\<lambda>acc item. bump acc (category_or_default item)) [] items"

text \<open>Lines 50 to 53.\<close>

definition allCategories :: "VaultItem list \<Rightarrow> jsstring list \<Rightarrow> jsstring list" where
  "allCategories items customCategories =
     (let existing = Object_keys (categoryCounts items)
      in sort (Array_from_Set (existing @ customCategories @ [UNCATEGORIZED])))"

subsection \<open>Local state, effects and handlers (lines 27 to 32 and 57 to 90)\<close>

datatype view_mode = Category | Tag

record sidebar_state =
  mode :: view_mode
  isDragOver :: "jsstring option"
  editingTag :: "jsstring option"
  editValue :: jsstring
  newCategoryName :: jsstring
  customCategories :: "jsstring list"

text \<open>The initial values of the six \<open>useState\<close> calls.\<close>

definition initial_state :: sidebar_state where
  "initial_state =
     \<lparr>mode = Category, isDragOver = None, editingTag = None, editValue = [],
      newCategoryName = [], customCategories = []\<rparr>"

text \<open>
  What a handler does to the outside: the two calls on the event object and the six
  callbacks of \<open>Props\<close>, with their arguments (\<open>None\<close> is \<open>null\<close>).
\<close>

datatype effect =
    PreventDefault
  | StopPropagation
  | OnSelectTag "jsstring option"
  | OnSelectCategory "jsstring option"
  | OnDropOnTag jsstring jsstring
  | OnDropOnCategory jsstring jsstring
  | OnRenameTag jsstring jsstring
  | OnDeleteGroup view_mode jsstring

text \<open>Lines 57 to 60.\<close>

definition handleDragOver :: "sidebar_state \<Rightarrow> jsstring option \<Rightarrow> sidebar_state \<times> effect list" where
  "handleDragOver s target = (s\<lparr>isDragOver := target\<rparr>, [PreventDefault])"

text \<open>
  Lines 62 to 73. \<open>payload\<close> is what \<open>e.dataTransfer.getData("text/plain")\<close> returns;
  the empty string is falsy.
\<close>

definition handleDrop :: "sidebar_state \<Rightarrow> jsstring \<Rightarrow> jsstring \<Rightarrow> sidebar_state \<times> effect list" where
  "handleDrop s payload target =
     (let s' = s\<lparr>isDragOver := None\<rparr>;
          itemId = payload
      in if itemId \<noteq> [] then
           (if mode s = Tag then (s', [PreventDefault, OnDropOnTag itemId target])
            else (s', [PreventDefault, OnDropOnCategory itemId target]))
         else (s', [PreventDefault]))"

text \<open>
  Lines 75 to 83. \<open>allCategories\<close> and \<open>customCategories\<close> are the values of the render
  the handler was created in.
\<close>

definition handleAddCategory :: "VaultItem list \<Rightarrow> sidebar_state \<Rightarrow> sidebar_state \<times> effect list" where
  "handleAddCategory items s =
     (if trim (newCategoryName s) \<noteq> [] then
        (let name = trim (newCategoryName s);
             s' = (if name \<notin> set (allCategories items (customCategories s))
                   then s\<lparr>customCategories := customCategories s @ [name]\<rparr>
                   else s)
         in (s'\<lparr>newCategoryName := []\<rparr>, []))
      else (s, []))"

text \<open>Lines 85 to 90. \<open>confirmed\<close> is the answer \<open>confirm\<close> returns.\<close>

definition handleBulkDelete :: "sidebar_state \<Rightarrow> jsstring \<Rightarrow> bool \<Rightarrow> sidebar_state \<times> effect list" where
  "handleBulkDelete s name confirmed =
     (if confirmed then (s, [StopPropagation, OnDeleteGroup (mode s) name])
      else (s, [StopPropagation]))"

text \<open>The inline handlers of the two tabs (lines 97 and 107).\<close>

definition clickCategoryTab :: "sidebar_state \<Rightarrow> sidebar_state \<times> effect list" where
  "clickCategoryTab s = (s\<lparr>mode := Category\<rparr>, [OnSelectTag None])"

definition clickTagTab :: "sidebar_state \<Rightarrow> sidebar_state \<times> effect list" where
  "clickTagTab s = (s\<lparr>mode := Tag\<rparr>, [OnSelectCategory None])"

subsection \<open>Gestures\<close>

text \<open>
  Every event handler the returned element tree attaches (lines 92 to 230). Tag rows exist
  in tag mode and category rows in category mode, so a click on a row selects in the
  active mode; the drag and delete handlers of the two kinds of row are the same
  functions. The delete control stops propagation, so its click does not reach the row.
  A gesture is accepted here whatever the row's name, also one that is not on screen.
\<close>

datatype gesture =
    ClickCategoryTab
  | ClickTagTab
  | ClickShowAll
  | ClickRow jsstring
  | DragOverRow jsstring
  | DragLeaveRow
  | DropOnRow jsstring jsstring
  | ClickDelete jsstring bool
  | ChangeInput jsstring
  | KeyDownInput jsstring
  | ClickAdd

fun dispatch :: "VaultItem list \<Rightarrow> sidebar_state \<Rightarrow> gesture \<Rightarrow> sidebar_state \<times> effect list" where
  "dispatch items s ClickCategoryTab = clickCategoryTab s"
| "dispatch items s ClickTagTab = clickTagTab s"
| "dispatch items s ClickShowAll = (s, [OnSelectTag None, OnSelectCategory None])"
| "dispatch items s (ClickRow name) =
     (if mode s = Tag then (s, [OnSelectTag (Some name)])
      else (s, [OnSelectCategory (Some name)]))"
| "dispatch items s (DragOverRow name) = handleDragOver s (Some name)"
| "dispatch items s DragLeaveRow = (s\<lparr>isDragOver := None\<rparr>, [])"
| "dispatch items s (DropOnRow payload name) = handleDrop s payload name"
| "dispatch items s (ClickDelete name confirmed) = handleBulkDelete s name confirmed"
| "dispatch items s (ChangeInput v) = (s\<lparr>newCategoryName := v\<rparr>, [])"
| "dispatch items s (KeyDownInput key) =
     (if key = js ''Enter'' then handleAddCategory items s else (s, []))"
| "dispatch items s ClickAdd = handleAddCategory items s"

text \<open>
  A session: the gestures in order, each with the item list of the render it happens in
  (the parent may pass a new list at any time). The effects are collected in order.
\<close>

fun run :: "sidebar_state \<Rightarrow> (VaultItem list \<times> gesture) list \<Rightarrow> sidebar_state \<times> effect list" where
  "run s [] = (s, [])"
| "run s ((items, g) # rest) =
     (let (s', effs) = dispatch items s g;
          (s'', effs') = run s' rest
      in (s'', effs @ effs'))"

subsection \<open>Notions the properties are stated with\<close>

text \<open>The callbacks among the effects (the six functions of \<open>Props\<close>).\<close>

fun is_callback :: "effect \<Rightarrow> bool" where
  "is_callback PreventDefault = False"
| "is_callback StopPropagation = False"
| "is_callback _ = True"

fun is_rename_tag :: "effect \<Rightarrow> bool" where
  "is_rename_tag (OnRenameTag _ _) = True"
| "is_rename_tag _ = False"

text \<open>
  The sum of the values of a count map, when every value is a number; \<open>None\<close> when some
  value is a string, for which the sum is no number.
\<close>

fun num_of :: "jsval \<Rightarrow> nat option" where
  "num_of (Num n) = Some n"
| "num_of (Txt p k) = None"

fun numeric_total :: "jsobject \<Rightarrow> nat option" where
  "numeric_total [] = Some 0"
| "numeric_total ((k, v) # ps) =
     (case (num_of v, numeric_total ps) of
        (Some n, Some m) \<Rightarrow> Some (n + m)
      | _ \<Rightarrow> None)"

text \<open>The number of (item, tag) membership pairs, each occurrence of a tag counted.\<close>

definition membership_pairs :: "VaultItem list \<Rightarrow> nat" where
  "membership_pairs items = sum_list (map (\<lambda>item. length (tags item)) items)"

text \<open>How often the tag \<open>t\<close> occurs in the tags of all items.\<close>

definition occurrences :: "VaultItem list \<Rightarrow> jsstring \<Rightarrow> nat" where
  "occurrences items t = sum_list (map (\<lambda>item. count_list (tags item) t) items)"

text \<open>
  The count a row shows for \<open>k\<close> when it is a number (\<open>acc[k]\<close>, and \<open>0\<close> for a key that
  is not there); \<open>None\<close> when the read gives something else.
\<close>

definition count_at :: "jsobject \<Rightarrow> jsstring \<Rightarrow> nat option" where
  "count_at acc k =
     (case get_prop acc k of
        Undefined \<Rightarrow> Some 0
      | Own v \<Rightarrow> num_of v
      | Inherited p \<Rightarrow> None)"

text \<open>
  What holds of the custom categories in every state: no name twice, none empty, each its
  own trimmed form, none the label of the uncategorized group.
\<close>

definition custom_ok :: "jsstring list \<Rightarrow> bool" where
  "custom_ok cs =
     (distinct cs \<and> list_all (\<lambda>c. c \<noteq> [] \<and> trim c = c \<and> c \<noteq> UNCATEGORIZED) cs)"

text \<open>
  The category universe in the spec's words (its section 3): the categories observed in
  the items (an item without category counting under the label of the uncategorized
  group), the locally created categories, and that label. It is compared below with
  \<open>allCategories\<close>, which is what the component computes.
\<close>

definition spec_category_universe :: "VaultItem list \<Rightarrow> jsstring list \<Rightarrow> jsstring set" where
  "spec_category_universe items custom =
     set (map category_or_default items) \<union> set custom \<union> {UNCATEGORIZED}"

section \<open>Properties\<close>

subsection \<open>Keys, sets and sorting\<close>

lemma set_Object_keys: "set (Object_keys obj) = fst ` set obj"
  by (auto simp: Object_keys_def Let_def)

lemma set_foldl_Set_add: "set (foldl Set_add s xs) = set s \<union> set xs"
  by (induction xs arbitrary: s) (auto simp: Set_add_def)

lemma distinct_foldl_Set_add: "distinct s \<Longrightarrow> distinct (foldl Set_add s xs)"
  by (induction xs arbitrary: s) (auto simp: Set_add_def)

lemma set_Array_from_Set: "set (Array_from_Set xs) = set xs"
  by (simp add: Array_from_Set_def set_foldl_Set_add)

lemma distinct_Array_from_Set: "distinct (Array_from_Set xs)"
  by (simp add: Array_from_Set_def distinct_foldl_Set_add)

lemma set_allCategories:
  "set (allCategories items custom)
     = fst ` set (categoryCounts items) \<union> set custom \<union> {UNCATEGORIZED}"
  by (simp add: allCategories_def Let_def set_Array_from_Set set_Object_keys)

lemma proto_in_names: "js ''__proto__'' \<in> set Object_prototype_names"
  by (simp add: Object_prototype_names_def)

lemma keys_bump:
  "fst ` set (bump acc k) = fst ` set acc \<union> (if k = js ''__proto__'' then {} else {k})"
  by (simp add: bump_def set_prop_def dom_update)

lemma keys_foldl_category:
  "fst ` set (foldl (\<lambda>acc item. bump acc (category_or_default item)) acc items)
     = fst ` set acc \<union> (category_or_default ` set items - {js ''__proto__''})"
  by (induction items arbitrary: acc) (auto simp: keys_bump)

lemma keys_categoryCounts:
  "fst ` set (categoryCounts items) = category_or_default ` set items - {js ''__proto__''}"
  by (simp add: categoryCounts_def keys_foldl_category)

lemma category_or_default_nonempty: "[] \<noteq> category_or_default item"
  by (simp add: category_or_default_def UNCATEGORIZED_def split: option.splits)

lemma allCategories_nonempty_names:
  "[] \<notin> set custom \<Longrightarrow> [] \<notin> set (allCategories items custom)"
  using category_or_default_nonempty
  by (auto simp: set_allCategories keys_categoryCounts UNCATEGORIZED_def)

text \<open>
  C2. Whatever the items and the custom categories, the category universe contains the
  label of the uncategorized group, is in ascending lexicographic order (of UTF-16 code
  units) and has no name twice; the tag list is in ascending lexicographic order.
\<close>

theorem universe_and_tags_sorted:
  "UNCATEGORIZED \<in> set (allCategories items custom)
   \<and> sorted (allCategories items custom)
   \<and> distinct (allCategories items custom)
   \<and> sorted (sortedTags items)"
proof -
  have "UNCATEGORIZED \<in> set (allCategories items custom)"
    by (simp add: set_allCategories)
  moreover have "sorted (allCategories items custom)"
    by (simp add: allCategories_def Let_def)
  moreover have "distinct (allCategories items custom)"
    by (simp add: allCategories_def Let_def distinct_Array_from_Set)
  moreover have "sorted (sortedTags items)"
    by (simp add: sortedTags_def)
  ultimately show ?thesis by simp
qed

subsection \<open>Counting\<close>

text \<open>
  A key that \<open>Object.prototype\<close> does not carry is counted as intended: each \<open>bump\<close>
  adds one to the sum of the values and one to the count of its key.
\<close>

lemma numeric_total_bump:
  "k \<notin> set Object_prototype_names \<Longrightarrow> numeric_total acc = Some n
     \<Longrightarrow> numeric_total (bump acc k) = Some (n + 1)"
proof (induction acc arbitrary: n)
  case Nil
  then show ?case
    using proto_in_names by (auto simp: bump_def set_prop_def get_prop_def)
next
  case (Cons p ps)
  obtain k' v where p: "p = (k', v)" by (cases p)
  from Cons.prems(2) p obtain a b where
    a: "num_of v = Some a" and b: "numeric_total ps = Some b" and n: "n = a + b"
    by (auto split: option.splits)
  have ne: "k \<noteq> js ''__proto__''"
    using Cons.prems(1) proto_in_names by auto
  show ?case
  proof (cases "k' = k")
    case True
    from a obtain c where "v = Num c" by (cases v) auto
    then show ?thesis
      using True p a b n ne by (simp add: bump_def set_prop_def get_prop_def)
  next
    case False
    have "numeric_total (bump ps k) = Some (b + 1)"
      using Cons.IH [OF Cons.prems(1) b] .
    moreover have "bump (p # ps) k = p # bump ps k"
      using False p ne by (simp add: bump_def set_prop_def get_prop_def)
    ultimately show ?thesis
      using p a n by simp
  qed
qed

lemma numeric_total_foldl_bump:
  "set ks \<inter> set Object_prototype_names = {} \<Longrightarrow> numeric_total acc = Some n
     \<Longrightarrow> numeric_total (foldl bump acc ks) = Some (n + length ks)"
proof (induction ks arbitrary: acc n)
  case Nil
  then show ?case by simp
next
  case (Cons k ks)
  have "numeric_total (bump acc k) = Some (n + 1)"
    using Cons.prems by (intro numeric_total_bump) auto
  then have "numeric_total (foldl bump (bump acc k) ks) = Some (n + 1 + length ks)"
    using Cons.prems(1) by (intro Cons.IH) auto
  then show ?case by simp
qed

lemma numeric_total_foldl_tags:
  "(\<forall>item \<in> set items. set (tags item) \<inter> set Object_prototype_names = {})
     \<Longrightarrow> numeric_total acc = Some n
     \<Longrightarrow> numeric_total (foldl (\<lambda>acc item. foldl bump acc (tags item)) acc items)
           = Some (n + membership_pairs items)"
proof (induction items arbitrary: acc n)
  case Nil
  then show ?case by (simp add: membership_pairs_def)
next
  case (Cons item items)
  have "numeric_total (foldl bump acc (tags item)) = Some (n + length (tags item))"
    using Cons.prems by (intro numeric_total_foldl_bump) auto
  then have "numeric_total (foldl (\<lambda>acc item. foldl bump acc (tags item))
      (foldl bump acc (tags item)) items) = Some (n + length (tags item) + membership_pairs items)"
    using Cons.prems(1) by (intro Cons.IH) auto
  then show ?case by (simp add: membership_pairs_def add.assoc)
qed

lemma tagCounts_total_regular:
  "(\<forall>item \<in> set items. set (tags item) \<inter> set Object_prototype_names = {})
     \<Longrightarrow> numeric_total (tagCounts items) = Some (membership_pairs items)"
  using numeric_total_foldl_tags [of items "[]" 0] by (simp add: tagCounts_def)

lemma numeric_total_foldl_category:
  "(\<forall>item \<in> set items. category_or_default item \<notin> set Object_prototype_names)
     \<Longrightarrow> numeric_total acc = Some n
     \<Longrightarrow> numeric_total (foldl (\<lambda>acc item. bump acc (category_or_default item)) acc items)
           = Some (n + length items)"
proof (induction items arbitrary: acc n)
  case Nil
  then show ?case by simp
next
  case (Cons item items)
  have "numeric_total (bump acc (category_or_default item)) = Some (n + 1)"
    using Cons.prems by (intro numeric_total_bump) auto
  then have "numeric_total (foldl (\<lambda>acc item. bump acc (category_or_default item))
      (bump acc (category_or_default item)) items) = Some (n + 1 + length items)"
    using Cons.prems(1) by (intro Cons.IH) auto
  then show ?case by simp
qed

lemma categoryCounts_total_regular:
  "(\<forall>item \<in> set items. category_or_default item \<notin> set Object_prototype_names)
     \<Longrightarrow> numeric_total (categoryCounts items) = Some (length items)"
  using numeric_total_foldl_category [of items "[]" 0] by (simp add: categoryCounts_def)

lemma plus_one_of_number: "num_of v = Some n \<Longrightarrow> or_zero_plus_one (Own v) = Num (n + 1)"
  by (cases v) auto

lemma count_at_bump:
  assumes t: "t \<notin> set Object_prototype_names" and n: "count_at acc t = Some n"
  shows "count_at (bump acc k) t = Some (n + (if k = t then 1 else 0))"
proof (cases "k = js ''__proto__''")
  case True
  then have "k \<noteq> t" using t proto_in_names by auto
  then show ?thesis using True n by (simp add: bump_def set_prop_def)
next
  case False
  show ?thesis
  proof (cases "k = t")
    case True
    show ?thesis
    proof (cases "map_of acc t")
      case None
      then show ?thesis
        using True False t n
        by (simp add: count_at_def bump_def set_prop_def get_prop_def update_conv')
    next
      case (Some v)
      then have "num_of v = Some n"
        using n by (simp add: count_at_def get_prop_def)
      then have "or_zero_plus_one (Own v) = Num (n + 1)"
        by (rule plus_one_of_number)
      then show ?thesis
        using True False Some
        by (simp add: count_at_def bump_def set_prop_def get_prop_def update_conv')
    qed
  next
    case kt: False
    then show ?thesis
      using False n
      by (simp add: count_at_def bump_def set_prop_def get_prop_def update_conv')
  qed
qed

lemma count_at_foldl_bump:
  "t \<notin> set Object_prototype_names \<Longrightarrow> count_at acc t = Some n
     \<Longrightarrow> count_at (foldl bump acc ks) t = Some (n + count_list ks t)"
proof (induction ks arbitrary: acc n)
  case Nil
  then show ?case by simp
next
  case (Cons k ks)
  have "count_at (bump acc k) t = Some (n + (if k = t then 1 else 0))"
    using Cons.prems by (rule count_at_bump)
  from Cons.IH [OF Cons.prems(1) this] show ?case by simp
qed

lemma count_at_foldl_tags:
  "t \<notin> set Object_prototype_names \<Longrightarrow> count_at acc t = Some n
     \<Longrightarrow> count_at (foldl (\<lambda>acc item. foldl bump acc (tags item)) acc items) t
           = Some (n + occurrences items t)"
proof (induction items arbitrary: acc n)
  case Nil
  then show ?case by (simp add: occurrences_def)
next
  case (Cons item items)
  have "count_at (foldl bump acc (tags item)) t = Some (n + count_list (tags item) t)"
    using Cons.prems by (rule count_at_foldl_bump)
  from Cons.IH [OF Cons.prems(1) this] show ?case
    by (simp add: occurrences_def add.assoc)
qed

lemma tagCounts_occurrences_regular:
  "t \<notin> set Object_prototype_names \<Longrightarrow> count_at (tagCounts items) t = Some (occurrences items t)"
  using count_at_foldl_tags [of t "[]" 0 items]
  by (simp add: tagCounts_def count_at_def get_prop_def)

text \<open>
  C1. The sums fail on a name that \<open>Object.prototype\<close> carries. One item with the single
  tag \<open>__proto__\<close> is one membership pair, and the tag-count map stays empty, so its
  values sum to 0; one item of category \<open>__proto__\<close> leaves the category-count map empty,
  so its values sum to 0 for a list of length 1; with the tag \<open>constructor\<close> the stored
  value is a string and the values have no numeric sum.
\<close>

theorem inherited_names_break_count_sums:
  "numeric_total (tagCounts [\<lparr>tags = [js ''__proto__''], category = None\<rparr>]) = Some 0
   \<and> membership_pairs [\<lparr>tags = [js ''__proto__''], category = None\<rparr>] = 1
   \<and> numeric_total (categoryCounts [\<lparr>tags = [], category = Some (js ''__proto__'')\<rparr>]) = Some 0
   \<and> length [\<lparr>tags = [], category = Some (js ''__proto__'')\<rparr>] = 1
   \<and> numeric_total (tagCounts [\<lparr>tags = [js ''constructor''], category = None\<rparr>]) = None"
  by (simp add: tagCounts_def categoryCounts_def bump_def set_prop_def get_prop_def
      membership_pairs_def category_or_default_def Object_prototype_names_def js_def)

text \<open>
  C10. An ordinary tag that an item carries twice is counted twice. The tag \<open>__proto__\<close>
  carried twice is not counted at all, and the tag \<open>constructor\<close> carried twice leaves a
  string (an inherited text followed by two characters \<open>1\<close>) where the count 2 should be.
\<close>

theorem repeated_inherited_tag_not_counted:
  "count_at (tagCounts [\<lparr>tags = [js ''a'', js ''a''], category = None\<rparr>]) (js ''a'') = Some 2
   \<and> tagCounts [\<lparr>tags = [js ''__proto__'', js ''__proto__''], category = None\<rparr>] = []
   \<and> tagCounts [\<lparr>tags = [js ''constructor'', js ''constructor''], category = None\<rparr>]
       = [(js ''constructor'', Txt (js ''constructor'') 2)]"
  by (simp add: tagCounts_def bump_def set_prop_def get_prop_def count_at_def
      Object_prototype_names_def js_def)

subsection \<open>Drop, mode switch and bulk delete\<close>

text \<open>
  C3. A drop on a row carrying a non-empty identifier calls, of all callbacks, exactly
  drop-on-tag(identifier, row) in tag mode and exactly drop-on-category(identifier, row)
  in category mode; a drop carrying the empty identifier calls no callback; in every case
  the drag-over indicator is none afterwards.
\<close>

theorem handleDrop_routes_by_mode:
  "(payload \<noteq> [] \<and> mode s = Tag \<longrightarrow>
      filter is_callback (snd (dispatch items s (DropOnRow payload name)))
        = [OnDropOnTag payload name])
   \<and> (payload \<noteq> [] \<and> mode s = Category \<longrightarrow>
      filter is_callback (snd (dispatch items s (DropOnRow payload name)))
        = [OnDropOnCategory payload name])
   \<and> (payload = [] \<longrightarrow>
      filter is_callback (snd (dispatch items s (DropOnRow payload name))) = [])
   \<and> isDragOver (fst (dispatch items s (DropOnRow payload name))) = None"
  by (simp add: handleDrop_def Let_def)

theorem handleDrop_routes_by_mode_witness:
  "js ''item-42'' \<noteq> [] \<and> mode (initial_state\<lparr>mode := Tag\<rparr>) = Tag
   \<and> filter is_callback
        (snd (dispatch [] (initial_state\<lparr>mode := Tag\<rparr>) (DropOnRow (js ''item-42'') (js ''a''))))
       = [OnDropOnTag (js ''item-42'') (js ''a'')]
   \<and> mode initial_state = Category
   \<and> filter is_callback (snd (dispatch [] initial_state (DropOnRow (js ''item-42'') (js ''Work''))))
       = [OnDropOnCategory (js ''item-42'') (js ''Work'')]
   \<and> filter is_callback (snd (dispatch [] initial_state (DropOnRow [] (js ''Work'')))) = []
   \<and> isDragOver (fst (dispatch [] (initial_state\<lparr>isDragOver := Some (js ''Work'')\<rparr>)
        (DropOnRow [] (js ''Work'')))) = None"
proof -
  have a: "js ''item-42'' \<noteq> []" by (simp add: js_def)
  have b: "mode (initial_state\<lparr>mode := Tag\<rparr>) = Tag" by simp
  have c: "mode initial_state = Category" by (simp add: initial_state_def)
  show ?thesis
    using a b c
      handleDrop_routes_by_mode
        [of "js ''item-42''" "initial_state\<lparr>mode := Tag\<rparr>" "[]" "js ''a''"]
      handleDrop_routes_by_mode [of "js ''item-42''" initial_state "[]" "js ''Work''"]
      handleDrop_routes_by_mode [of "[]" initial_state "[]" "js ''Work''"]
      handleDrop_routes_by_mode
        [of "[]" "initial_state\<lparr>isDragOver := Some (js ''Work'')\<rparr>" "[]" "js ''Work''"]
    by simp
qed

text \<open>
  C4. From every state, a click on the category tab sets the view mode to category and
  calls select-tag(none), and a click on the tag tab sets the view mode to tag and calls
  select-category(none); neither does anything else to the outside.
\<close>

theorem tab_click_switches_and_clears:
  "mode (fst (dispatch items s ClickCategoryTab)) = Category
   \<and> snd (dispatch items s ClickCategoryTab) = [OnSelectTag None]
   \<and> mode (fst (dispatch items s ClickTagTab)) = Tag
   \<and> snd (dispatch items s ClickTagTab) = [OnSelectCategory None]"
  by (simp add: clickCategoryTab_def clickTagTab_def)

text \<open>
  C7. For every row name and every state, a click on the row's delete control that the
  user confirms calls, of all callbacks, delete-group once, with the active view mode and
  the row's name; a click the user declines calls no callback. The state is the same
  afterwards.
\<close>

theorem handleBulkDelete_once_or_never:
  "filter is_callback (snd (dispatch items s (ClickDelete name True)))
     = [OnDeleteGroup (mode s) name]
   \<and> filter is_callback (snd (dispatch items s (ClickDelete name False))) = []
   \<and> fst (dispatch items s (ClickDelete name confirmed)) = s"
  by (simp add: handleBulkDelete_def)

subsection \<open>The rename callback\<close>

lemma dispatch_no_rename: "filter is_rename_tag (snd (dispatch items s g)) = []"
  by (cases g)
    (simp_all add: clickCategoryTab_def clickTagTab_def handleDragOver_def handleDrop_def
      handleBulkDelete_def handleAddCategory_def Let_def)

text \<open>
  C8. In every session, from every state, the number of calls of rename-tag is zero.
\<close>

theorem run_never_renames:
  "length (filter is_rename_tag (snd (run s session))) = 0"
proof (induction session arbitrary: s)
  case Nil
  show ?case by simp
next
  case (Cons ig rest)
  obtain items g where ig: "ig = (items, g)" by (cases ig)
  obtain s' effs where d: "dispatch items s g = (s', effs)" by (cases "dispatch items s g")
  obtain s'' effs' where r: "run s' rest = (s'', effs')" by (cases "run s' rest")
  have "filter is_rename_tag effs = []"
    using dispatch_no_rename [of items s g] d by simp
  moreover have "filter is_rename_tag effs' = []"
    using Cons.IH [of s'] r by simp
  ultimately show ?case
    using ig d r by simp
qed

subsection \<open>Creating categories\<close>

lemma dropWhile_rev_dropWhile:
  "dropWhile P (rev (dropWhile P (rev (dropWhile P xs))))
     = rev (dropWhile P (rev (dropWhile P xs)))"
proof -
  define u where "u = dropWhile P xs"
  have hd_u: "u = [] \<or> \<not> P (hd u)"
    unfolding u_def using hd_dropWhile [of P xs] by blast
  have "dropWhile P (rev (dropWhile P (rev u))) = rev (dropWhile P (rev u))"
  proof (cases u)
    case Nil
    then show ?thesis by simp
  next
    case (Cons y ys)
    then have ny: "\<not> P y" using hd_u by simp
    have "dropWhile P (rev (y # ys)) = dropWhile P (rev ys) @ [y]
        \<or> dropWhile P (rev (y # ys)) = [y]"
      using ny by (simp add: dropWhile_append)
    then show ?thesis
      using Cons ny by auto
  qed
  then show ?thesis by (simp add: u_def)
qed

lemma trim_idem: "trim (trim s) = trim s"
  by (simp add: trim_def dropWhile_rev_dropWhile)

lemma trim_blank: "trim (js ''  '') = []"
  by (simp add: trim_def js_def is_white_space_def)

lemma trim_Work: "trim (js '' Work '') = js ''Work''"
  by (simp add: trim_def is_white_space_def js_def)

lemma universe_empty_items: "allCategories [] [] = [UNCATEGORIZED]"
  by (simp add: allCategories_def categoryCounts_def Object_keys_def Array_from_Set_def
      Set_add_def)

lemma universe_Work_item:
  "set (allCategories [\<lparr>tags = [], category = Some (js ''Work'')\<rparr>] [])
     = {js ''Work'', UNCATEGORIZED}"
  by (auto simp: set_allCategories keys_categoryCounts category_or_default_def js_def)

text \<open>The custom categories stay well-formed through every gesture.\<close>

lemma handleAddCategory_custom_ok:
  assumes "custom_ok (customCategories s)"
  shows "custom_ok (customCategories (fst (handleAddCategory items s)))"
proof (cases "trim (newCategoryName s) \<noteq> []
    \<and> trim (newCategoryName s) \<notin> set (allCategories items (customCategories s))")
  case True
  then have "trim (newCategoryName s) \<notin> set (customCategories s)"
    and "trim (newCategoryName s) \<noteq> UNCATEGORIZED"
    by (auto simp: set_allCategories)
  then show ?thesis
    using True assms by (simp add: handleAddCategory_def custom_ok_def trim_idem)
next
  case False
  then show ?thesis
    using assms by (auto simp: handleAddCategory_def)
qed

lemma dispatch_custom_ok:
  "custom_ok (customCategories s) \<Longrightarrow> custom_ok (customCategories (fst (dispatch items s g)))"
  by (cases g)
    (simp_all add: handleAddCategory_custom_ok clickCategoryTab_def clickTagTab_def
      handleDragOver_def handleDrop_def handleBulkDelete_def Let_def)

lemma run_custom_ok:
  "custom_ok (customCategories s) \<Longrightarrow> custom_ok (customCategories (fst (run s session)))"
proof (induction session arbitrary: s)
  case Nil
  then show ?case by simp
next
  case (Cons ig rest)
  obtain items g where ig: "ig = (items, g)" by (cases ig)
  have "custom_ok (customCategories (fst (dispatch items s g)))"
    using Cons.prems by (rule dispatch_custom_ok)
  then have "custom_ok (customCategories (fst (run (fst (dispatch items s g)) rest)))"
    by (rule Cons.IH)
  then show ?case
    using ig by (simp add: case_prod_unfold Let_def)
qed

lemma reachable_custom_ok: "custom_ok (customCategories (fst (run initial_state session)))"
  by (rule run_custom_ok) (simp add: custom_ok_def initial_state_def)

text \<open>
  A name that a submission adds is the trimmed input, and it is not the category of any
  item of that render, unless it is \<open>__proto__\<close>.
\<close>

lemma handleAddCategory_not_observed:
  assumes "customCategories (fst (handleAddCategory items s)) \<noteq> customCategories s"
  shows "customCategories (fst (handleAddCategory items s))
           = customCategories s @ [trim (newCategoryName s)]
         \<and> (trim (newCategoryName s) = js ''__proto__''
            \<or> trim (newCategoryName s) \<notin> category_or_default ` set items)"
  using assms
  by (auto simp: handleAddCategory_def Let_def set_allCategories keys_categoryCounts
      split: if_splits)

text \<open>
  When no item has the category \<open>__proto__\<close>, the component's list has exactly the
  names of the spec's universe, and a submission (a click on the add control, or Enter in
  the input) in a reachable state does what is intended: a new, non-empty trimmed name is
  appended and thereby joins the universe, a name already in the universe is not, and the
  input is emptied either way.
\<close>

lemma allCategories_is_universe:
  "js ''__proto__'' \<notin> category_or_default ` set items
     \<Longrightarrow> set (allCategories items custom) = spec_category_universe items custom"
  by (auto simp: set_allCategories keys_categoryCounts spec_category_universe_def)

lemma handleAddCategory_adds_or_ignores:
  assumes "s = fst (run initial_state session)"
    and "name = trim (newCategoryName s)"
    and "s' = fst (handleAddCategory items s)"
  shows "(name \<noteq> [] \<and> name \<notin> set (allCategories items (customCategories s)) \<longrightarrow>
            customCategories s' = customCategories s @ [name]
            \<and> name \<in> set (allCategories items (customCategories s'))
            \<and> newCategoryName s' = [])
       \<and> (name \<in> set (allCategories items (customCategories s)) \<longrightarrow>
            customCategories s' = customCategories s \<and> newCategoryName s' = [])"
proof -
  have "custom_ok (customCategories s)"
    using assms(1) reachable_custom_ok by simp
  then have "[] \<notin> set (customCategories s)"
    by (auto simp: custom_ok_def list_all_iff)
  then have ne: "[] \<notin> set (allCategories items (customCategories s))"
    by (rule allCategories_nonempty_names)
  have a: "name \<noteq> [] \<and> name \<notin> set (allCategories items (customCategories s)) \<longrightarrow>
            customCategories s' = customCategories s @ [name]
            \<and> name \<in> set (allCategories items (customCategories s'))
            \<and> newCategoryName s' = []"
    using assms(2,3) by (simp add: handleAddCategory_def set_allCategories)
  have b: "name \<in> set (allCategories items (customCategories s)) \<longrightarrow>
            customCategories s' = customCategories s \<and> newCategoryName s' = []"
    using assms(2,3) ne by (auto simp: handleAddCategory_def)
  show ?thesis by (intro conjI a b)
qed

lemma submit_adds_or_ignores_regular:
  assumes reach: "s = fst (run initial_state session)"
    and name: "name = trim (newCategoryName s)"
    and submit: "g = ClickAdd \<or> g = KeyDownInput (js ''Enter'')"
    and regular: "js ''__proto__'' \<notin> category_or_default ` set items"
    and s': "s' = fst (dispatch items s g)"
  shows "(name \<noteq> [] \<and> name \<notin> spec_category_universe items (customCategories s) \<longrightarrow>
            customCategories s' = customCategories s @ [name]
            \<and> name \<in> spec_category_universe items (customCategories s')
            \<and> newCategoryName s' = [])
       \<and> (name \<in> spec_category_universe items (customCategories s) \<longrightarrow>
            customCategories s' = customCategories s \<and> newCategoryName s' = [])"
proof -
  have "dispatch items s g = handleAddCategory items s"
    using submit by auto
  then have "s' = fst (handleAddCategory items s)"
    using s' by simp
  from handleAddCategory_adds_or_ignores [OF reach name this] show ?thesis
    by (simp only: allCategories_is_universe [OF regular])
qed

lemma submit_Work_examples:
  "customCategories (fst (run initial_state
      [([], ChangeInput (js '' Work '')), ([], ClickAdd)])) = [js ''Work'']
   \<and> newCategoryName (fst (run initial_state
      [([], ChangeInput (js '' Work '')), ([], ClickAdd)])) = []
   \<and> customCategories (fst (run initial_state
      [([\<lparr>tags = [], category = Some (js ''Work'')\<rparr>], ChangeInput (js '' Work '')),
       ([\<lparr>tags = [], category = Some (js ''Work'')\<rparr>], KeyDownInput (js ''Enter''))])) = []
   \<and> newCategoryName (fst (run initial_state
      [([\<lparr>tags = [], category = Some (js ''Work'')\<rparr>], ChangeInput (js '' Work '')),
       ([\<lparr>tags = [], category = Some (js ''Work'')\<rparr>], KeyDownInput (js ''Enter''))])) = []"
  by (simp add: handleAddCategory_def trim_Work universe_empty_items universe_Work_item
      initial_state_def)
    (simp add: js_def UNCATEGORIZED_def)

text \<open>
  C5. A submitted name that equals an existing category is added all the same when that
  category is \<open>__proto__\<close>. One item has the category \<open>__proto__\<close> and the user has
  typed \<open>__proto__\<close>: the trimmed name is not empty and is in the category universe of
  the spec, the component's list does not have it, and both ways of submitting (the add
  control, Enter in the input) append it to the custom categories, which were empty.
\<close>

theorem submit_adds_existing_category:
  "trim (newCategoryName (fst (run initial_state
      [([\<lparr>tags = [], category = Some (js ''__proto__'')\<rparr>], ChangeInput (js ''__proto__''))])))
     = js ''__proto__''
   \<and> js ''__proto__'' \<in> spec_category_universe
        [\<lparr>tags = [], category = Some (js ''__proto__'')\<rparr>]
        (customCategories (fst (run initial_state
          [([\<lparr>tags = [], category = Some (js ''__proto__'')\<rparr>],
            ChangeInput (js ''__proto__''))])))
   \<and> allCategories [\<lparr>tags = [], category = Some (js ''__proto__'')\<rparr>]
        (customCategories (fst (run initial_state
          [([\<lparr>tags = [], category = Some (js ''__proto__'')\<rparr>],
            ChangeInput (js ''__proto__''))])))
       = [UNCATEGORIZED]
   \<and> customCategories (fst (run initial_state
        [([\<lparr>tags = [], category = Some (js ''__proto__'')\<rparr>], ChangeInput (js ''__proto__''))]))
       = []
   \<and> customCategories (fst (dispatch [\<lparr>tags = [], category = Some (js ''__proto__'')\<rparr>]
        (fst (run initial_state
          [([\<lparr>tags = [], category = Some (js ''__proto__'')\<rparr>],
            ChangeInput (js ''__proto__''))]))
        ClickAdd))
       = [js ''__proto__'']
   \<and> customCategories (fst (dispatch [\<lparr>tags = [], category = Some (js ''__proto__'')\<rparr>]
        (fst (run initial_state
          [([\<lparr>tags = [], category = Some (js ''__proto__'')\<rparr>],
            ChangeInput (js ''__proto__''))]))
        (KeyDownInput (js ''Enter''))))
       = [js ''__proto__'']"
  by (simp add: initial_state_def handleAddCategory_def allCategories_def categoryCounts_def
      bump_def set_prop_def get_prop_def category_or_default_def Object_keys_def
      Array_from_Set_def Set_add_def trim_def is_white_space_def UNCATEGORIZED_def
      spec_category_universe_def Object_prototype_names_def js_def Let_def)

text \<open>
  C6. A submission whose input is blank after trimming changes nothing at all: the custom
  categories, and with them the category universe, stay as they are, and so does the
  input, which is not emptied.
\<close>

theorem handleAddCategory_blank_is_noop:
  "trim (newCategoryName s) = [] \<Longrightarrow>
     dispatch items s ClickAdd = (s, [])
     \<and> dispatch items s (KeyDownInput (js ''Enter'')) = (s, [])
     \<and> allCategories items (customCategories (fst (dispatch items s ClickAdd)))
         = allCategories items (customCategories s)"
  by (simp add: handleAddCategory_def)

theorem handleAddCategory_blank_is_noop_witness:
  "trim (newCategoryName (initial_state\<lparr>newCategoryName := js ''  ''\<rparr>)) = []
   \<and> dispatch [] (initial_state\<lparr>newCategoryName := js ''  ''\<rparr>) ClickAdd
       = (initial_state\<lparr>newCategoryName := js ''  ''\<rparr>, [])"
proof -
  have h: "trim (newCategoryName (initial_state\<lparr>newCategoryName := js ''  ''\<rparr>)) = []"
    by (simp add: trim_blank)
  show ?thesis
    using h handleAddCategory_blank_is_noop [OF h, of "[]"] by simp
qed

text \<open>
  The input of two spaces is blank after trimming, and after typing it and clicking the
  add control the input still holds the two spaces.
\<close>

theorem blank_submission_keeps_input:
  "trim (js ''  '') = []
   \<and> newCategoryName (fst (run initial_state [([], ChangeInput (js ''  '')), ([], ClickAdd)]))
       = js ''  ''
   \<and> js ''  '' \<noteq> []"
  by (simp add: trim_blank handleAddCategory_def initial_state_def) (simp add: js_def)

text \<open>
  C9. The custom categories start empty and stay well-formed (lemma
  \<open>reachable_custom_ok\<close>), but a name can be added that is the category of an item of the
  same render: with one item of category \<open>__proto__\<close>, typing \<open>__proto__\<close> and clicking
  the add control makes \<open>__proto__\<close> a custom category.
\<close>

theorem custom_category_duplicates_item_category:
  "customCategories initial_state = []
   \<and> customCategories (fst (run initial_state
      [([\<lparr>tags = [], category = Some (js ''__proto__'')\<rparr>], ChangeInput (js ''__proto__'')),
       ([\<lparr>tags = [], category = Some (js ''__proto__'')\<rparr>], ClickAdd)]))
     = [js ''__proto__'']
   \<and> category_or_default \<lparr>tags = [], category = Some (js ''__proto__'')\<rparr> = js ''__proto__''"
  by (simp add: initial_state_def handleAddCategory_def allCategories_def categoryCounts_def
      bump_def set_prop_def get_prop_def category_or_default_def Object_keys_def
      Array_from_Set_def Set_add_def trim_def is_white_space_def UNCATEGORIZED_def
      Object_prototype_names_def js_def Let_def)

subsection \<open>Worked examples\<close>

text \<open>
  Two tagged items: \<open>a\<close> is counted twice and \<open>b\<close> once, and the tags are listed as
  \<open>a\<close>, \<open>b\<close>.
\<close>

lemma example_tag_counts:
  "tagCounts [\<lparr>tags = [js ''a'', js ''b''], category = None\<rparr>,
              \<lparr>tags = [js ''a''], category = None\<rparr>]
     = [(js ''a'', Num 2), (js ''b'', Num 1)]
   \<and> sortedTags [\<lparr>tags = [js ''a'', js ''b''], category = None\<rparr>,
                 \<lparr>tags = [js ''a''], category = None\<rparr>]
     = [js ''a'', js ''b'']"
  by (simp add: sortedTags_def tagCounts_def bump_def set_prop_def get_prop_def
      Object_keys_def is_array_index_def is_digit_def Object_prototype_names_def js_def)

text \<open>
  Three items, the second without a category: \<open>Work\<close> is counted twice and the
  uncategorized group once, and the category universe lists \<open>Work\<close> before the label.
\<close>

lemma example_category_counts:
  "categoryCounts [\<lparr>tags = [], category = Some (js ''Work'')\<rparr>,
                   \<lparr>tags = [], category = Some []\<rparr>,
                   \<lparr>tags = [], category = Some (js ''Work'')\<rparr>]
     = [(js ''Work'', Num 2), (UNCATEGORIZED, Num 1)]
   \<and> allCategories [\<lparr>tags = [], category = Some (js ''Work'')\<rparr>,
                    \<lparr>tags = [], category = Some []\<rparr>,
                    \<lparr>tags = [], category = Some (js ''Work'')\<rparr>] []
     = [js ''Work'', UNCATEGORIZED]"
  by (simp add: allCategories_def categoryCounts_def category_or_default_def bump_def
      set_prop_def get_prop_def Object_keys_def is_array_index_def is_digit_def
      Array_from_Set_def Set_add_def Object_prototype_names_def UNCATEGORIZED_def js_def)

text \<open>
  Keys that are array indices come first from \<open>Object.keys\<close>, in numeric order; the sort
  of line 42 then orders all keys as strings.
\<close>

lemma example_index_keys:
  "Object_keys (tagCounts [\<lparr>tags = [js ''b'', js ''10'', js ''9''], category = None\<rparr>])
     = [js ''9'', js ''10'', js ''b'']
   \<and> sortedTags [\<lparr>tags = [js ''b'', js ''10'', js ''9''], category = None\<rparr>]
     = [js ''10'', js ''9'', js ''b'']"
  by (simp add: sortedTags_def tagCounts_def bump_def set_prop_def get_prop_def
      Object_keys_def is_array_index_def is_digit_def index_value_def
      Object_prototype_names_def js_def)

end
